theory Spec2Isabelle
  imports
    Complex_Main
    "HOL-Library.AList"
    "HOL-Library.Char_ord"
    "HOL-Library.List_Lexorder"
    "HOL-Library.Product_Lexorder"
    "HOL-Library.Multiset"
begin

section \<open>ElderCare API: the handlers of main.py over an explicit document store\<close>

text \<open>
  The handlers of \<^verbatim>\<open>main.py\<close> talk to a MongoDB database through the motor driver.
  The embedding makes the database an explicit argument that every handler takes and returns,
  and gathers everything a handler reads from outside the program (the server clock, the
  outcome of a driver call, the id the driver generates, the bson library's \<^verbatim>\<open>ObjectId\<close>
  constructor and \<^verbatim>\<open>str\<close>) in one record, \<open>env\<close>. An exception is a result: a handler
  returns either the \<^verbatim>\<open>HTTPException\<close> it raises or the JSON body it returns.
  The \<^verbatim>\<open>print\<close> calls of the \<^verbatim>\<open>except\<close> blocks write to the log only and are left out.
\<close>

subsection \<open>Documents\<close>

text \<open>
  A bson \<^verbatim>\<open>ObjectId\<close> wraps its bytes; two of them are equal when the bytes are.
  The values this program puts into a document are strings, one float (\<^verbatim>\<open>cost\<close>, which is
  stored and never computed with) and the \<^verbatim>\<open>_id\<close>.
  A Python dict is an association list: insertion order, one entry per key,
  \<open>AList.update\<close> for \<^verbatim>\<open>d[k] = v\<close> (in place when the key is there, appended otherwise),
  \<open>AList.delete\<close> for \<^verbatim>\<open>del d[k]\<close>, \<open>map_of d k\<close> for \<^verbatim>\<open>d[k]\<close> with \<open>None\<close> the KeyError.
\<close>

datatype objectid = ObjectId (binary: string)

datatype field = VStr string | VFloat real | VOid objectid

type_synonym document = "(string \<times> field) list"

text \<open>
  A document of a collection is its \<^verbatim>\<open>_id\<close> together with its other fields: the store gives
  every document an \<^verbatim>\<open>_id\<close>, and \<^verbatim>\<open>insert_one\<close> is never handed one, so it is always a
  generated \<^verbatim>\<open>ObjectId\<close>. \<open>as_dict\<close> is the dict the driver hands to Python.
\<close>

type_synonym stored = "objectid \<times> document"

definition as_dict :: "stored \<Rightarrow> document" where
  "as_dict d = (''_id'', VOid (fst d)) # snd d"

record database =
  users :: "stored list"
  service_requests :: "stored list"

subsection \<open>The world outside the program\<close>

text \<open>
  \<open>find_raises\<close> and \<open>write_raises\<close>: whether the read (\<^verbatim>\<open>find_one\<close>, iterating the
  cursor of \<^verbatim>\<open>find\<close>) or the write (\<^verbatim>\<open>insert_one\<close>, \<^verbatim>\<open>update_one\<close>) of this request raises,
  and with which message (\<^verbatim>\<open>str(e)\<close>). A call that raises leaves the collection as it was; a
  call that returns has been applied.
  \<open>acknowledged\<close> and \<open>inserted_id\<close>: the fields of the \<^verbatim>\<open>InsertOneResult\<close>.
  \<open>now_first\<close>, \<open>now_second\<close>: \<^verbatim>\<open>datetime.now().isoformat()\<close> at the first and the second
  call within one request.
  \<open>ObjectId_of_str\<close>: the bson constructor \<^verbatim>\<open>ObjectId(s)\<close> on a string, \<open>None\<close> when it
  raises; \<open>str_of_ObjectId\<close>: \<^verbatim>\<open>str(oid)\<close>. Both are the library's and stay parameters.
\<close>

record env =
  find_raises :: "string option"
  write_raises :: "string option"
  acknowledged :: bool
  inserted_id :: objectid
  now_first :: string
  now_second :: string
  ObjectId_of_str :: "string \<Rightarrow> objectid option"
  str_of_ObjectId :: "objectid \<Rightarrow> string"

subsection \<open>Exceptions and responses\<close>

datatype http_exception = HTTPException (status_code: nat) (detail: string)

text \<open>What a \<^verbatim>\<open>try\<close> body can raise: an \<^verbatim>\<open>HTTPException\<close>, or any other exception,
  of which only \<^verbatim>\<open>str(e)\<close> is ever used.\<close>

datatype py_exception = Http http_exception | Other string

fun string_of_nat :: "nat \<Rightarrow> string" where
  "string_of_nat n =
     (if n < 10 then [char_of (48 + n)]
      else string_of_nat (n div 10) @ [char_of (48 + n mod 10)])"

declare string_of_nat.simps [simp del]

text \<open>\<^verbatim>\<open>str(e)\<close>. For an \<^verbatim>\<open>HTTPException\<close> it is Starlette's
  \<^verbatim>\<open>f"{self.status_code}: {self.detail}"\<close>.\<close>

fun str_of_exception :: "py_exception \<Rightarrow> string" where
  "str_of_exception (Other m) = m"
| "str_of_exception (Http (HTTPException c d)) = string_of_nat c @ '': '' @ d"

text \<open>
  The JSON bodies of the successful responses:
  \<open>Message m\<close> is \<^verbatim>\<open>{"message": m}\<close>;
  \<open>LoginOk m u\<close> is \<^verbatim>\<open>{"message": m, "user": u}\<close>;
  \<open>Created m i\<close> is \<^verbatim>\<open>{"message": m, "requestId": i}\<close>;
  \<open>Requests rs\<close> is \<^verbatim>\<open>{"requests": rs}\<close>.
\<close>

datatype response =
    Message string
  | LoginOk string document
  | Created string string
  | Requests "document list"

type_synonym 'a raising = "py_exception + 'a"
type_synonym outcome = "(http_exception + response) \<times> database"

subsection \<open>The request models of models.py\<close>

record UserSignup =
  name :: string
  email :: string
  password :: string
  dob :: string
  role :: string

record UserLogin =
  email :: string
  password :: string

record ServiceRequest =
  userId :: string
  userName :: string
  userEmail :: string
  serviceType :: string
  requirements :: string
  cost :: real
  status :: string
  createdAt :: string

record RequestAction =
  caregiverId :: string
  caregiverName :: string
  caregiverEmail :: string

text \<open>Building a \<^verbatim>\<open>ServiceRequest\<close> from a body: \<^verbatim>\<open>status: str = "pending"\<close> is the only
  field with a default, so it is the only one a caller may omit.\<close>

definition new_ServiceRequest ::
  "string \<Rightarrow> string \<Rightarrow> string \<Rightarrow> string \<Rightarrow> string \<Rightarrow> real \<Rightarrow> string option \<Rightarrow> string
     \<Rightarrow> ServiceRequest" where
  "new_ServiceRequest uid uname uemail stype reqs c st created =
     \<lparr> userId = uid, userName = uname, userEmail = uemail, serviceType = stype,
       requirements = reqs, cost = c,
       status = (case st of None \<Rightarrow> ''pending'' | Some s \<Rightarrow> s),
       createdAt = created \<rparr>"

subsection \<open>The operations of the store\<close>

text \<open>A query \<^verbatim>\<open>{k: v}\<close> selects the documents whose field \<open>k\<close> is \<open>v\<close>.\<close>

definition matches :: "document \<Rightarrow> stored \<Rightarrow> bool" where
  "matches q d = list_all (\<lambda>(k, v). map_of (as_dict d) k = Some v) q"

text \<open>\<^verbatim>\<open>find_one\<close>: the first matching document in the collection's order, or \<^verbatim>\<open>None\<close>.\<close>

definition find_one :: "env \<Rightarrow> stored list \<Rightarrow> document \<Rightarrow> stored option raising" where
  "find_one e coll q =
     (case find_raises e of
        Some m \<Rightarrow> Inl (Other m)
      | None \<Rightarrow> Inr (List.find (matches q) coll))"

text \<open>\<^verbatim>\<open>insert_one\<close>: the document goes to the end of the collection under the generated id;
  the result carries \<^verbatim>\<open>acknowledged\<close> and \<^verbatim>\<open>inserted_id\<close>.\<close>

definition insert_one ::
  "env \<Rightarrow> stored list \<Rightarrow> document \<Rightarrow> (bool \<times> objectid) raising \<times> stored list" where
  "insert_one e coll doc =
     (case write_raises e of
        Some m \<Rightarrow> (Inl (Other m), coll)
      | None \<Rightarrow> (Inr (acknowledged e, inserted_id e), coll @ [(inserted_id e, doc)]))"

text \<open>\<^verbatim>\<open>{"$set": u}\<close> assigns the fields of \<open>u\<close> in order.\<close>

definition set_fields :: "document \<Rightarrow> stored \<Rightarrow> stored" where
  "set_fields u d = (fst d, fold (\<lambda>(k, v). AList.update k v) u (snd d))"

fun update_first :: "(stored \<Rightarrow> bool) \<Rightarrow> (stored \<Rightarrow> stored) \<Rightarrow> stored list \<Rightarrow> stored list" where
  "update_first P f [] = []"
| "update_first P f (d # ds) = (if P d then f d # ds else d # update_first P f ds)"

text \<open>\<^verbatim>\<open>update_one\<close>: the first matching document is updated; the result is
  \<^verbatim>\<open>matched_count\<close>.\<close>

definition update_one ::
  "env \<Rightarrow> stored list \<Rightarrow> document \<Rightarrow> document \<Rightarrow> nat raising \<times> stored list" where
  "update_one e coll q u =
     (case write_raises e of
        Some m \<Rightarrow> (Inl (Other m), coll)
      | None \<Rightarrow>
          (case List.find (matches q) coll of
             None \<Rightarrow> (Inr 0, coll)
           | Some _ \<Rightarrow> (Inr 1, update_first (matches q) (set_fields u) coll)))"

text \<open>The truth of what \<^verbatim>\<open>find_one\<close> returned: \<^verbatim>\<open>None\<close> and the empty dict are
  false.\<close>

definition truthy :: "stored option \<Rightarrow> bool" where
  "truthy r = (case r of None \<Rightarrow> False | Some d \<Rightarrow> as_dict d \<noteq> [])"

subsection \<open>signup\<close>

definition signup_try :: "env \<Rightarrow> database \<Rightarrow> UserSignup \<Rightarrow> response raising \<times> database" where
  "signup_try e db user =
     (case find_one e (users db) [(''email'', VStr (UserSignup.email user))] of
        Inl x \<Rightarrow> (Inl x, db)
      | Inr existing_user \<Rightarrow>
          if truthy existing_user then
            (Inl (Http (HTTPException 409
               ''Email already registered. Please use a different email or login to your existing account.'')),
             db)
          else
            let user_data =
                  [(''name'', VStr (UserSignup.name user)),
                   (''email'', VStr (UserSignup.email user)),
                   (''password'', VStr (UserSignup.password user)),
                   (''dob'', VStr (UserSignup.dob user)),
                   (''role'', VStr (UserSignup.role user))]
            in (case insert_one e (users db) user_data of
                  (Inl x, coll) \<Rightarrow> (Inl x, db\<lparr>users := coll\<rparr>)
                | (Inr result, coll) \<Rightarrow>
                    if fst result then
                      (Inr (Message ''Account created successfully!''), db\<lparr>users := coll\<rparr>)
                    else
                      (Inl (Http (HTTPException 500 ''Signup failed'')), db\<lparr>users := coll\<rparr>)))"

text \<open>\<^verbatim>\<open>except HTTPException: raise\<close>, then \<^verbatim>\<open>except Exception\<close> with the generic detail.\<close>

definition signup :: "env \<Rightarrow> database \<Rightarrow> UserSignup \<Rightarrow> outcome" where
  "signup e db user =
     (case signup_try e db user of
        (Inr r, db') \<Rightarrow> (Inr r, db')
      | (Inl (Http h), db') \<Rightarrow> (Inl h, db')
      | (Inl (Other m), db') \<Rightarrow>
          (Inl (HTTPException 500 ''Signup failed due to server error''), db'))"

subsection \<open>login\<close>

text \<open>\<^verbatim>\<open>d[k]\<close>: a missing key raises \<^verbatim>\<open>KeyError(k)\<close>, whose \<^verbatim>\<open>str\<close> is the quoted key.\<close>

definition subscript :: "document \<Rightarrow> string \<Rightarrow> field raising" where
  "subscript d k =
     (case map_of d k of
        None \<Rightarrow> Inl (Other ([CHR 0x27] @ k @ [CHR 0x27]))
      | Some v \<Rightarrow> Inr v)"

text \<open>\<^verbatim>\<open>not existing_user\<close> holds for \<^verbatim>\<open>None\<close> and for the empty dict. The entries of the
  returned dict are evaluated in the order they are written; \<^verbatim>\<open>existing_user["_id"]\<close> is
  the document's id.\<close>

definition login_try :: "env \<Rightarrow> database \<Rightarrow> UserLogin \<Rightarrow> response raising \<times> database" where
  "login_try e db user =
     (case find_one e (users db) [(''email'', VStr (UserLogin.email user))] of
        Inl x \<Rightarrow> (Inl x, db)
      | Inr existing_user \<Rightarrow>
          if \<not> truthy existing_user then
            (Inl (Http (HTTPException 404
               ''User not found. Please check your email or sign up.'')), db)
          else
            (case existing_user of
               None \<Rightarrow>
                 (Inl (Http (HTTPException 404
                    ''User not found. Please check your email or sign up.'')), db)
             | Some d \<Rightarrow>
                 (case subscript (as_dict d) ''password'' of
                    Inl x \<Rightarrow> (Inl x, db)
                  | Inr stored_password \<Rightarrow>
                      if stored_password \<noteq> VStr (UserLogin.password user) then
                        (Inl (Http (HTTPException 401
                           ''Incorrect password. Please try again.'')), db)
                      else
                        (case subscript (as_dict d) ''name'' of
                           Inl x \<Rightarrow> (Inl x, db)
                         | Inr n \<Rightarrow>
                        (case subscript (as_dict d) ''email'' of
                           Inl x \<Rightarrow> (Inl x, db)
                         | Inr m \<Rightarrow>
                        (case subscript (as_dict d) ''role'' of
                           Inl x \<Rightarrow> (Inl x, db)
                         | Inr r \<Rightarrow>
                        (case subscript (as_dict d) ''dob'' of
                           Inl x \<Rightarrow> (Inl x, db)
                         | Inr b \<Rightarrow>
                             (Inr (LoginOk ''Login successful!''
                                [(''id'', VStr (str_of_ObjectId e (fst d))),
                                 (''name'', n),
                                 (''email'', m),
                                 (''role'', r),
                                 (''dob'', b)]), db))))))))"

definition login :: "env \<Rightarrow> database \<Rightarrow> UserLogin \<Rightarrow> outcome" where
  "login e db user =
     (case login_try e db user of
        (Inr r, db') \<Rightarrow> (Inr r, db')
      | (Inl (Http h), db') \<Rightarrow> (Inl h, db')
      | (Inl (Other m), db') \<Rightarrow>
          (Inl (HTTPException 500 ''Login failed due to server error''), db'))"

subsection \<open>create_service_request\<close>

definition create_service_request_try ::
  "env \<Rightarrow> database \<Rightarrow> ServiceRequest \<Rightarrow> response raising \<times> database" where
  "create_service_request_try e db request =
     (let request_data =
            [(''userId'', VStr (userId request)),
             (''userName'', VStr (userName request)),
             (''userEmail'', VStr (userEmail request)),
             (''serviceType'', VStr (serviceType request)),
             (''requirements'', VStr (requirements request)),
             (''cost'', VFloat (cost request)),
             (''status'', VStr (status request)),
             (''createdAt'', VStr (createdAt request)),
             (''updatedAt'', VStr (now_first e))]
      in (case insert_one e (service_requests db) request_data of
            (Inl x, coll) \<Rightarrow> (Inl x, db\<lparr>service_requests := coll\<rparr>)
          | (Inr result, coll) \<Rightarrow>
              if fst result then
                (Inr (Created ''Service request created successfully!''
                        (str_of_ObjectId e (snd result))),
                 db\<lparr>service_requests := coll\<rparr>)
              else
                (Inl (Http (HTTPException 500 ''Failed to create service request'')),
                 db\<lparr>service_requests := coll\<rparr>)))"

text \<open>The only handler is \<^verbatim>\<open>except Exception as e\<close>, which also catches the
  \<^verbatim>\<open>HTTPException\<close> of the unacknowledged insert; the detail carries \<^verbatim>\<open>str(e)\<close>.\<close>

definition create_service_request :: "env \<Rightarrow> database \<Rightarrow> ServiceRequest \<Rightarrow> outcome" where
  "create_service_request e db request =
     (case create_service_request_try e db request of
        (Inr r, db') \<Rightarrow> (Inr r, db')
      | (Inl x, db') \<Rightarrow>
          (Inl (HTTPException 500
             (''Failed to create service request: '' @ str_of_exception x)), db'))"

subsection \<open>get_pending_requests\<close>

text \<open>
  The store compares values of different kinds by kind (a missing field first, then numbers,
  then strings, then object ids) and values of one kind among themselves; strings and ids
  compare by their bytes. \<open>bson_key\<close> maps a field to a key of a linear order that does so.
\<close>

fun bson_key :: "field option \<Rightarrow> nat \<times> real \<times> string" where
  "bson_key None = (0, 0, [])"
| "bson_key (Some (VFloat x)) = (1, x, [])"
| "bson_key (Some (VStr s)) = (2, 0, s)"
| "bson_key (Some (VOid i)) = (3, 0, binary i)"

text \<open>\<^verbatim>\<open>find(q).sort(k, -1)\<close>, read to the end: the matching documents, the greatest
  \<open>k\<close> first. The store does not fix the order of documents with equal \<open>k\<close>; here they come
  in the reverse of the collection's order.\<close>

definition find_sort_descending ::
  "env \<Rightarrow> stored list \<Rightarrow> document \<Rightarrow> string \<Rightarrow> stored list raising" where
  "find_sort_descending e coll q k =
     (case find_raises e of
        Some m \<Rightarrow> Inl (Other m)
      | None \<Rightarrow>
          Inr (rev (sort_key (\<lambda>d. bson_key (map_of (as_dict d) k)) (filter (matches q) coll))))"

text \<open>The body of the loop: \<^verbatim>\<open>request["id"] = str(request["_id"]); del request["_id"]\<close>.\<close>

definition surface_id :: "env \<Rightarrow> stored \<Rightarrow> document" where
  "surface_id e d =
     AList.delete ''_id'' (AList.update ''id'' (VStr (str_of_ObjectId e (fst d))) (as_dict d))"

definition get_pending_requests_try :: "env \<Rightarrow> database \<Rightarrow> response raising \<times> database" where
  "get_pending_requests_try e db =
     (case find_sort_descending e (service_requests db) [(''status'', VStr ''pending'')]
             ''createdAt'' of
        Inl x \<Rightarrow> (Inl x, db)
      | Inr cursor \<Rightarrow> (Inr (Requests (map (surface_id e) cursor)), db))"

definition get_pending_requests :: "env \<Rightarrow> database \<Rightarrow> outcome" where
  "get_pending_requests e db =
     (case get_pending_requests_try e db of
        (Inr r, db') \<Rightarrow> (Inr r, db')
      | (Inl x, db') \<Rightarrow>
          (Inl (HTTPException 500 ''Failed to fetch service requests''), db'))"

subsection \<open>handle_request_action\<close>

text \<open>The locals \<^verbatim>\<open>status\<close> and \<^verbatim>\<open>update_data\<close>, the latter with the two clock readings
  in the order they are taken.\<close>

definition action_status :: "string \<Rightarrow> string" where
  "action_status action = (if action = ''approve'' then ''approved'' else ''rejected'')"

definition update_data :: "env \<Rightarrow> string \<Rightarrow> RequestAction \<Rightarrow> document" where
  "update_data e new_status caregiver_data =
     [(''status'', VStr new_status),
      (''caregiverId'', VStr (caregiverId caregiver_data)),
      (''caregiverName'', VStr (caregiverName caregiver_data)),
      (''caregiverEmail'', VStr (caregiverEmail caregiver_data)),
      (''processedAt'', VStr (now_first e)),
      (''updatedAt'', VStr (now_second e))]"

definition handle_request_action_try ::
  "env \<Rightarrow> database \<Rightarrow> string \<Rightarrow> string \<Rightarrow> RequestAction \<Rightarrow> response raising \<times> database" where
  "handle_request_action_try e db request_id action caregiver_data =
     (if action \<notin> set [''approve'', ''reject''] then
        (Inl (Http (HTTPException 400
           (''Invalid action. Use 'approve' or 'reject'' @ [CHR 0x27]))), db)
      else
        (case ObjectId_of_str e request_id of
           None \<Rightarrow> (Inl (Http (HTTPException 400 ''Invalid request ID format'')), db)
         | Some obj_id \<Rightarrow>
             let status = action_status action
             in (case update_one e (service_requests db) [(''_id'', VOid obj_id)]
                       (update_data e status caregiver_data) of
                   (Inl x, coll) \<Rightarrow> (Inl x, db\<lparr>service_requests := coll\<rparr>)
                 | (Inr matched_count, coll) \<Rightarrow>
                     if matched_count \<noteq> 0 then
                       (Inr (Message (''Request '' @ status @ '' successfully!'')),
                        db\<lparr>service_requests := coll\<rparr>)
                     else
                       (Inl (Http (HTTPException 404 ''Service request not found'')),
                        db\<lparr>service_requests := coll\<rparr>))))"

text \<open>\<^verbatim>\<open>except HTTPException: raise\<close>, then \<^verbatim>\<open>except Exception as e\<close>, whose detail
  carries \<^verbatim>\<open>str(e)\<close>.\<close>

definition handle_request_action ::
  "env \<Rightarrow> database \<Rightarrow> string \<Rightarrow> string \<Rightarrow> RequestAction \<Rightarrow> outcome" where
  "handle_request_action e db request_id action caregiver_data =
     (case handle_request_action_try e db request_id action caregiver_data of
        (Inr r, db') \<Rightarrow> (Inr r, db')
      | (Inl (Http h), db') \<Rightarrow> (Inl h, db')
      | (Inl (Other m), db') \<Rightarrow>
          (Inl (HTTPException 500
             (''Failed to process service request: '' @ str_of_exception (Other m))), db'))"

subsection \<open>The shape of stored documents\<close>

text \<open>The fields \<^verbatim>\<open>signup\<close> gives a user document, each a string.\<close>

definition user_document :: "document \<Rightarrow> bool" where
  "user_document u =
     list_all (\<lambda>k. case map_of u k of Some (VStr s) \<Rightarrow> True | _ \<Rightarrow> False)
       [''name'', ''email'', ''password'', ''dob'', ''role'']"

text \<open>A database all of whose user documents have these fields.\<close>

definition users_well_formed :: "database \<Rightarrow> bool" where
  "users_well_formed db = list_all (\<lambda>d. user_document (snd d)) (users db)"

text \<open>The three statuses of the data model, as a check on a whole database.\<close>

definition statuses_valid :: "database \<Rightarrow> bool" where
  "statuses_valid db =
     list_all (\<lambda>d. map_of (snd d) ''status'' \<in>
                 {Some (VStr ''pending''), Some (VStr ''approved''), Some (VStr ''rejected'')})
       (service_requests db)"

subsection \<open>Example data\<close>

text \<open>A world in which no call fails, a 24-character check standing for the bson
  constructor, and a database with one user and three service requests.\<close>

definition env0 :: env where
  "env0 = \<lparr> find_raises = None, write_raises = None, acknowledged = True,
            inserted_id = ObjectId ''n1'', now_first = ''2024-05-01T10:00:00'',
            now_second = ''2024-05-01T10:00:01'',
            ObjectId_of_str = (\<lambda>s. if length s = 24 then Some (ObjectId s) else None),
            str_of_ObjectId = binary \<rparr>"

definition db0 :: database where
  "db0 = \<lparr> users =
             [(ObjectId ''u1'',
               [(''name'', VStr ''A''), (''email'', VStr ''a@x.com''), (''password'', VStr ''p''),
                (''dob'', VStr ''2000-01-01''), (''role'', VStr ''family'')])],
           service_requests =
             [(ObjectId ''aaaaaaaaaaaaaaaaaaaaaaaa'',
               [(''userId'', VStr ''u1''), (''userName'', VStr ''A''),
                (''userEmail'', VStr ''a@x.com''), (''serviceType'', VStr ''nursing''),
                (''requirements'', VStr ''daily''), (''cost'', VFloat 10),
                (''status'', VStr ''pending''), (''createdAt'', VStr ''2024-04-01''),
                (''updatedAt'', VStr ''2024-04-01T09:00:00'')]),
              (ObjectId ''bbbbbbbbbbbbbbbbbbbbbbbb'',
               [(''userId'', VStr ''u1''), (''userName'', VStr ''A''),
                (''userEmail'', VStr ''a@x.com''), (''serviceType'', VStr ''cooking''),
                (''requirements'', VStr ''weekly''), (''cost'', VFloat 5),
                (''status'', VStr ''pending''), (''createdAt'', VStr ''2024-04-02''),
                (''updatedAt'', VStr ''2024-04-02T09:00:00'')]),
              (ObjectId ''dddddddddddddddddddddddd'',
               [(''userId'', VStr ''u1''), (''userName'', VStr ''A''),
                (''userEmail'', VStr ''a@x.com''), (''serviceType'', VStr ''driving''),
                (''requirements'', VStr ''once''), (''cost'', VFloat 7),
                (''status'', VStr ''approved''), (''createdAt'', VStr ''2024-04-03''),
                (''updatedAt'', VStr ''2024-04-03T12:00:00''),
                (''caregiverId'', VStr ''c1''), (''caregiverName'', VStr ''Ann''),
                (''caregiverEmail'', VStr ''ann@x.com''),
                (''processedAt'', VStr ''2024-04-03T12:00:00'')])] \<rparr>"

definition user_a :: UserSignup where
  "user_a = \<lparr> name = ''A'', email = ''a@x.com'', password = ''p'', dob = ''2000-01-01'',
              role = ''family'' \<rparr>"

definition login_nobody :: UserLogin where
  "login_nobody = \<lparr> email = ''nobody@x.com'', password = ''p'' \<rparr>"

definition login_wrong :: UserLogin where
  "login_wrong = \<lparr> email = ''a@x.com'', password = ''wrong'' \<rparr>"

definition login_a :: UserLogin where
  "login_a = \<lparr> email = ''a@x.com'', password = ''p'' \<rparr>"

definition request_a :: ServiceRequest where
  "request_a = new_ServiceRequest ''u1'' ''A'' ''a@x.com'' ''nursing'' ''daily'' 10 None ''2024-05-01''"

definition caregiver_a :: RequestAction where
  "caregiver_a = \<lparr> caregiverId = ''c1'', caregiverName = ''Ann'', caregiverEmail = ''ann@x.com'' \<rparr>"

definition caregiver_b :: RequestAction where
  "caregiver_b = \<lparr> caregiverId = ''c2'', caregiverName = ''Bob'', caregiverEmail = ''bob@x.com'' \<rparr>"

definition rid_a :: string where "rid_a = ''aaaaaaaaaaaaaaaaaaaaaaaa''"

definition rid_b :: string where "rid_b = ''bbbbbbbbbbbbbbbbbbbbbbbb''"

definition env1 :: env where
  "env1 = env0\<lparr> now_first := ''2024-06-01T08:00:00'', now_second := ''2024-06-01T08:00:01'' \<rparr>"

definition request_urgent :: ServiceRequest where
  "request_urgent =
     new_ServiceRequest ''u1'' ''A'' ''a@x.com'' ''nursing'' ''daily'' 10 (Some ''urgent'')
       ''2024-05-01''"

definition env_down :: env where
  "env_down = env0\<lparr> find_raises := Some ''connection refused'',
                     write_raises := Some ''connection refused'' \<rparr>"

definition user_new :: UserSignup where
  "user_new = \<lparr> name = ''B'', email = ''b@x.com'', password = ''q'', dob = ''1990-01-01'',
                role = ''caregiver'' \<rparr>"

definition env_write_down :: env where
  "env_write_down = env0\<lparr> write_raises := Some ''connection refused'' \<rparr>"

section \<open>Properties\<close>

subsection \<open>The store\<close>

lemma find_Some_ex: "(\<exists>d. List.find P xs = Some d) \<longleftrightarrow> (\<exists>d \<in> set xs. P d)"
  by (induction xs) auto

lemma truthy_Some [simp]: "truthy (Some d)"
  by (simp add: truthy_def as_dict_def)

lemma truthy_None [simp]: "\<not> truthy None"
  by (simp add: truthy_def)

lemma matches_field:
  "k \<noteq> ''_id'' \<Longrightarrow> matches [(k, v)] d \<longleftrightarrow> map_of (snd d) k = Some v"
  by (simp add: matches_def as_dict_def)

lemma matches_id: "matches [(''_id'', VOid i)] d \<longleftrightarrow> fst d = i"
  by (auto simp add: matches_def as_dict_def)

lemma find_one_returns:
  "find_raises e = None \<Longrightarrow> find_one e coll q = Inr (List.find (matches q) coll)"
  by (simp add: find_one_def)

lemma find_one_raises:
  "find_raises e = Some m \<Longrightarrow> find_one e coll q = Inl (Other m)"
  by (simp add: find_one_def)

subsection \<open>signup\<close>

text \<open>
  C1. When the lookup returns and some user document carries the email of the signup
  request, \<open>signup\<close> raises the 409 \<^verbatim>\<open>HTTPException\<close> with the "Email already registered"
  detail, and the database it leaves is the one it found: no document is inserted.
\<close>

theorem signup_existing_email_conflict:
  assumes "find_raises e = None"
    and "\<exists>d \<in> set (users db). map_of (snd d) ''email'' = Some (VStr (UserSignup.email user))"
  shows "signup e db user =
           (Inl (HTTPException 409
              ''Email already registered. Please use a different email or login to your existing account.''),
            db)"
proof -
  let ?q = "[(''email'', VStr (UserSignup.email user))]"
  from assms(2) have "\<exists>d \<in> set (users db). matches ?q d"
    by (simp add: matches_field)
  then obtain d where "List.find (matches ?q) (users db) = Some d"
    using find_Some_ex by metis
  with assms(1) show ?thesis
    by (simp add: signup_def signup_try_def find_one_returns)
qed

theorem signup_existing_email_conflict_witness:
  "find_raises env0 = None
   \<and> (\<exists>d \<in> set (users db0). map_of (snd d) ''email'' = Some (VStr (UserSignup.email user_a)))
   \<and> signup env0 db0 user_a =
           (Inl (HTTPException 409
              ''Email already registered. Please use a different email or login to your existing account.''),
            db0)"
proof -
  have h1: "find_raises env0 = None" by (simp add: env0_def)
  have h2: "\<exists>d \<in> set (users db0). map_of (snd d) ''email'' = Some (VStr (UserSignup.email user_a))"
    by (simp add: db0_def user_a_def)
  show ?thesis using h1 h2 signup_existing_email_conflict [OF h1 h2] by simp
qed

subsection \<open>login\<close>

lemma matches_field_fun:
  "k \<noteq> ''_id'' \<Longrightarrow> matches [(k, v)] = (\<lambda>d. map_of (snd d) k = Some v)"
  by (rule ext) (simp add: matches_field)

lemma find_None_iff: "List.find P xs = None \<longleftrightarrow> (\<forall>d \<in> set xs. \<not> P d)"
  by (induction xs) auto

lemma subscript_field:
  "k \<noteq> ''_id'' \<Longrightarrow> subscript (as_dict d) k =
     (case map_of (snd d) k of None \<Rightarrow> Inl (Other ([CHR 0x27] @ k @ [CHR 0x27])) | Some v \<Rightarrow> Inr v)"
  by (simp add: subscript_def as_dict_def)

lemma login_try_db: "snd (login_try e db user) = db"
  by (simp add: login_try_def split: sum.split option.split)

lemma login_db: "snd (login e db user) = db"
  using login_try_db [of e db user]
  by (auto simp add: login_def split: prod.split sum.split py_exception.split)

lemma login_try_not_found:
  assumes "find_raises e = None"
    and "\<forall>d \<in> set (users db). map_of (snd d) ''email'' \<noteq> Some (VStr (UserLogin.email user))"
  shows "login_try e db user =
           (Inl (Http (HTTPException 404 ''User not found. Please check your email or sign up.'')), db)"
proof -
  have "List.find (\<lambda>d. map_of (snd d) ''email'' = Some (VStr (UserLogin.email user))) (users db) = None"
    using assms(2) by (simp add: find_None_iff)
  then show ?thesis using assms(1)
    by (simp add: login_try_def find_one_returns matches_field_fun)
qed

lemma login_try_found:
  assumes "find_raises e = None"
    and "List.find (\<lambda>d. map_of (snd d) ''email'' = Some (VStr (UserLogin.email user))) (users db) = Some d"
    and "map_of (snd d) ''password'' = Some pw"
  shows "login_try e db user =
     (if pw \<noteq> VStr (UserLogin.password user) then
        (Inl (Http (HTTPException 401 ''Incorrect password. Please try again.'')), db)
      else
        (case subscript (as_dict d) ''name'' of
           Inl x \<Rightarrow> (Inl x, db)
         | Inr n \<Rightarrow>
        (case subscript (as_dict d) ''email'' of
           Inl x \<Rightarrow> (Inl x, db)
         | Inr m \<Rightarrow>
        (case subscript (as_dict d) ''role'' of
           Inl x \<Rightarrow> (Inl x, db)
         | Inr r \<Rightarrow>
        (case subscript (as_dict d) ''dob'' of
           Inl x \<Rightarrow> (Inl x, db)
         | Inr b \<Rightarrow>
             (Inr (LoginOk ''Login successful!''
                [(''id'', VStr (str_of_ObjectId e (fst d))),
                 (''name'', n),
                 (''email'', m),
                 (''role'', r),
                 (''dob'', b)]), db))))))"
  using assms
  by (simp add: login_try_def find_one_returns matches_field_fun subscript_field)

text \<open>
  C2. \<open>login\<close> never changes the database, whatever it returns. When the lookup returns
  and no user document carries the email, it raises the 404 \<^verbatim>\<open>HTTPException\<close>; when the
  document the lookup finds has a stored password that differs from the supplied one (plain
  inequality of the two values), it raises the 401 \<^verbatim>\<open>HTTPException\<close>.
\<close>

theorem login_not_found_unauthorized_no_effect:
  "snd (login e db user) = db
   \<and> (find_raises e = None \<longrightarrow>
        (\<forall>d \<in> set (users db). map_of (snd d) ''email'' \<noteq> Some (VStr (UserLogin.email user))) \<longrightarrow>
        fst (login e db user) =
          Inl (HTTPException 404 ''User not found. Please check your email or sign up.''))
   \<and> (\<forall>d pw. find_raises e = None \<longrightarrow>
        List.find (\<lambda>d. map_of (snd d) ''email'' = Some (VStr (UserLogin.email user))) (users db)
          = Some d \<longrightarrow>
        map_of (snd d) ''password'' = Some pw \<longrightarrow>
        pw \<noteq> VStr (UserLogin.password user) \<longrightarrow>
        fst (login e db user) = Inl (HTTPException 401 ''Incorrect password. Please try again.''))"
proof (intro conjI allI impI)
  show "snd (login e db user) = db" by (rule login_db)
next
  assume "find_raises e = None"
    and "\<forall>d \<in> set (users db). map_of (snd d) ''email'' \<noteq> Some (VStr (UserLogin.email user))"
  then show "fst (login e db user) =
          Inl (HTTPException 404 ''User not found. Please check your email or sign up.'')"
    by (simp add: login_def login_try_not_found)
next
  fix d pw
  assume "find_raises e = None"
    and "List.find (\<lambda>d. map_of (snd d) ''email'' = Some (VStr (UserLogin.email user))) (users db)
          = Some d"
    and "map_of (snd d) ''password'' = Some pw"
    and "pw \<noteq> VStr (UserLogin.password user)"
  then show "fst (login e db user) = Inl (HTTPException 401 ''Incorrect password. Please try again.'')"
    by (simp add: login_def login_try_found)
qed

theorem login_not_found_unauthorized_no_effect_witness:
  "snd (login env0 db0 login_wrong) = db0
   \<and> fst (login env0 db0 login_nobody) =
       Inl (HTTPException 404 ''User not found. Please check your email or sign up.'')
   \<and> fst (login env0 db0 login_wrong) =
       Inl (HTTPException 401 ''Incorrect password. Please try again.'')"
proof -
  have h1: "find_raises env0 = None" by (simp add: env0_def)
  have h2: "\<forall>d \<in> set (users db0).
              map_of (snd d) ''email'' \<noteq> Some (VStr (UserLogin.email login_nobody))"
    by (simp add: db0_def login_nobody_def)
  have h3: "List.find (\<lambda>d. map_of (snd d) ''email'' = Some (VStr (UserLogin.email login_wrong)))
              (users db0) = Some (hd (users db0))"
    by (simp add: db0_def login_wrong_def)
  have h4: "map_of (snd (hd (users db0))) ''password'' = Some (VStr ''p'')"
    by (simp add: db0_def)
  have h5: "VStr ''p'' \<noteq> VStr (UserLogin.password login_wrong)"
    by (simp add: login_wrong_def)
  from login_not_found_unauthorized_no_effect [of env0 db0 login_nobody] h1 h2
  have a: "fst (login env0 db0 login_nobody) =
       Inl (HTTPException 404 ''User not found. Please check your email or sign up.'')"
    by blast
  from login_not_found_unauthorized_no_effect [of env0 db0 login_wrong] h1 h3 h4 h5
  have b: "snd (login env0 db0 login_wrong) = db0
    \<and> fst (login env0 db0 login_wrong) =
       Inl (HTTPException 401 ''Incorrect password. Please try again.'')"
    by blast
  from a b show ?thesis by simp
qed

lemma user_document_fields:
  "user_document u \<longleftrightarrow>
     (\<exists>n m p b r. map_of u ''name'' = Some (VStr n) \<and> map_of u ''email'' = Some (VStr m)
        \<and> map_of u ''password'' = Some (VStr p) \<and> map_of u ''dob'' = Some (VStr b)
        \<and> map_of u ''role'' = Some (VStr r))"
  by (auto simp add: user_document_def split: option.splits field.splits)

text \<open>
  C3. When the lookup returns a user document whose stored password is the supplied one, the
  body is \<^verbatim>\<open>{"message": "Login successful!", "user": u}\<close> where \<open>u\<close> has exactly the
  entries id (the \<^verbatim>\<open>str\<close> of the stored \<^verbatim>\<open>_id\<close>), name, email, role and dob, taken
  from the document. Whatever the input, a successful body has exactly these five keys and
  no password entry.
\<close>

theorem login_success_sanitized:
  "(find_raises e = None \<longrightarrow>
      List.find (\<lambda>d. map_of (snd d) ''email'' = Some (VStr (UserLogin.email user))) (users db)
        = Some d \<longrightarrow>
      user_document (snd d) \<longrightarrow>
      map_of (snd d) ''password'' = Some (VStr (UserLogin.password user)) \<longrightarrow>
      (\<exists>n r b. map_of (snd d) ''name'' = Some (VStr n) \<and> map_of (snd d) ''role'' = Some (VStr r)
         \<and> map_of (snd d) ''dob'' = Some (VStr b)
         \<and> fst (login e db user) =
             Inr (LoginOk ''Login successful!''
                    [(''id'', VStr (str_of_ObjectId e (fst d))),
                     (''name'', VStr n),
                     (''email'', VStr (UserLogin.email user)),
                     (''role'', VStr r),
                     (''dob'', VStr b)])))
   \<and> (\<forall>m u. fst (login e db user) = Inr (LoginOk m u) \<longrightarrow>
         map fst u = [''id'', ''name'', ''email'', ''role'', ''dob'']
         \<and> map_of u ''password'' = None)"
proof (intro conjI allI impI)
  assume f: "find_raises e = None"
    and d: "List.find (\<lambda>d. map_of (snd d) ''email'' = Some (VStr (UserLogin.email user))) (users db)
        = Some d"
    and u: "user_document (snd d)"
    and p: "map_of (snd d) ''password'' = Some (VStr (UserLogin.password user))"
  from d have m: "map_of (snd d) ''email'' = Some (VStr (UserLogin.email user))"
    by (auto simp add: find_Some_iff)
  from u obtain n r b where
    nrb: "map_of (snd d) ''name'' = Some (VStr n)" "map_of (snd d) ''role'' = Some (VStr r)"
      "map_of (snd d) ''dob'' = Some (VStr b)"
    by (auto simp add: user_document_fields)
  have "login_try e db user =
          (Inr (LoginOk ''Login successful!''
                    [(''id'', VStr (str_of_ObjectId e (fst d))),
                     (''name'', VStr n),
                     (''email'', VStr (UserLogin.email user)),
                     (''role'', VStr r),
                     (''dob'', VStr b)]), db)"
    by (simp add: login_try_found [OF f d p] subscript_field nrb m)
  then have "fst (login e db user) =
             Inr (LoginOk ''Login successful!''
                    [(''id'', VStr (str_of_ObjectId e (fst d))),
                     (''name'', VStr n),
                     (''email'', VStr (UserLogin.email user)),
                     (''role'', VStr r),
                     (''dob'', VStr b)])"
    by (simp add: login_def)
  with nrb show "\<exists>n r b. map_of (snd d) ''name'' = Some (VStr n) \<and> map_of (snd d) ''role'' = Some (VStr r)
         \<and> map_of (snd d) ''dob'' = Some (VStr b)
         \<and> fst (login e db user) =
             Inr (LoginOk ''Login successful!''
                    [(''id'', VStr (str_of_ObjectId e (fst d))),
                     (''name'', VStr n),
                     (''email'', VStr (UserLogin.email user)),
                     (''role'', VStr r),
                     (''dob'', VStr b)])"
    by blast
next
  fix m u
  assume ok: "fst (login e db user) = Inr (LoginOk m u)"
  then obtain db' where "login_try e db user = (Inr (LoginOk m u), db')"
    by (auto simp add: login_def split: prod.splits sum.splits py_exception.splits)
  then have "\<exists>i n a r b. u = [(''id'', i), (''name'', n), (''email'', a), (''role'', r), (''dob'', b)]"
    by (auto simp add: login_try_def split: sum.splits option.splits if_splits)
  then show "map fst u = [''id'', ''name'', ''email'', ''role'', ''dob'']"
    and "map_of u ''password'' = None"
    by auto
qed

theorem login_success_sanitized_witness:
  "fst (login env0 db0 login_a) =
     Inr (LoginOk ''Login successful!''
            [(''id'', VStr ''u1''), (''name'', VStr ''A''), (''email'', VStr ''a@x.com''),
             (''role'', VStr ''family''), (''dob'', VStr ''2000-01-01'')])"
proof -
  let ?d = "hd (users db0)"
  have h1: "find_raises env0 = None" by (simp add: env0_def)
  have h2: "List.find (\<lambda>d. map_of (snd d) ''email'' = Some (VStr (UserLogin.email login_a)))
              (users db0) = Some ?d"
    by (simp add: db0_def login_a_def)
  have h3: "user_document (snd ?d)" by (simp add: db0_def user_document_def)
  have h4: "map_of (snd ?d) ''password'' = Some (VStr (UserLogin.password login_a))"
    by (simp add: db0_def login_a_def)
  have v: "map_of (snd ?d) ''name'' = Some (VStr ''A'')" "map_of (snd ?d) ''role'' = Some (VStr ''family'')"
    "map_of (snd ?d) ''dob'' = Some (VStr ''2000-01-01'')" "fst ?d = ObjectId ''u1''"
    "UserLogin.email login_a = ''a@x.com''" "str_of_ObjectId env0 = binary"
    by (simp_all add: db0_def login_a_def env0_def)
  from login_success_sanitized [of env0 login_a db0 ?d] h1 h2 h3 h4
  have "\<exists>n r b. map_of (snd ?d) ''name'' = Some (VStr n) \<and> map_of (snd ?d) ''role'' = Some (VStr r)
         \<and> map_of (snd ?d) ''dob'' = Some (VStr b)
         \<and> fst (login env0 db0 login_a) =
             Inr (LoginOk ''Login successful!''
                    [(''id'', VStr (str_of_ObjectId env0 (fst ?d))),
                     (''name'', VStr n),
                     (''email'', VStr (UserLogin.email login_a)),
                     (''role'', VStr r),
                     (''dob'', VStr b)])"
    by blast
  then show ?thesis by (auto simp add: v)
qed

subsection \<open>create_service_request\<close>

lemma insert_one_returns:
  "write_raises e = None \<Longrightarrow>
     insert_one e coll doc = (Inr (acknowledged e, inserted_id e), coll @ [(inserted_id e, doc)])"
  by (simp add: insert_one_def)

lemma insert_one_raises:
  "write_raises e = Some m \<Longrightarrow> insert_one e coll doc = (Inl (Other m), coll)"
  by (simp add: insert_one_def)

lemma create_service_request_stores:
  assumes "write_raises e = None"
  shows "service_requests (snd (create_service_request e db request)) =
           service_requests db @
             [(inserted_id e,
               [(''userId'', VStr (userId request)),
                (''userName'', VStr (userName request)),
                (''userEmail'', VStr (userEmail request)),
                (''serviceType'', VStr (serviceType request)),
                (''requirements'', VStr (requirements request)),
                (''cost'', VFloat (cost request)),
                (''status'', VStr (status request)),
                (''createdAt'', VStr (createdAt request)),
                (''updatedAt'', VStr (now_first e))])]"
  using assms
  by (simp add: create_service_request_def create_service_request_try_def insert_one_returns Let_def)

lemma create_service_request_acknowledged:
  assumes "write_raises e = None" and "acknowledged e"
  shows "fst (create_service_request e db request) =
           Inr (Created ''Service request created successfully!''
                  (str_of_ObjectId e (inserted_id e)))"
  using assms
  by (simp add: create_service_request_def create_service_request_try_def insert_one_returns Let_def)

text \<open>
  C4. When the insert returns, the collection gains one document, stored under the generated
  id. Its \<^verbatim>\<open>status\<close> is the request's, which is \<^verbatim>\<open>"pending"\<close> for a request built
  without a status; its \<^verbatim>\<open>updatedAt\<close> is the server's clock reading, the same for every
  request; and when the insert is acknowledged the body carries the \<^verbatim>\<open>str\<close> of that
  generated id as \<^verbatim>\<open>requestId\<close>.
\<close>

theorem create_service_request_defaults:
  assumes "write_raises e = None"
  shows "\<exists>doc. service_requests (snd (create_service_request e db request)) =
                 service_requests db @ [(inserted_id e, doc)]
           \<and> map_of doc ''status'' = Some (VStr (status request))
           \<and> (\<forall>uid un ue st rq c cr.
                 request = new_ServiceRequest uid un ue st rq c None cr \<longrightarrow>
                 map_of doc ''status'' = Some (VStr ''pending''))
           \<and> map_of doc ''updatedAt'' = Some (VStr (now_first e))
           \<and> (acknowledged e \<longrightarrow>
                 fst (create_service_request e db request) =
                   Inr (Created ''Service request created successfully!''
                          (str_of_ObjectId e (inserted_id e))))"
  using create_service_request_stores [OF assms, of db request]
    create_service_request_acknowledged [OF assms, of db request]
  by (auto simp add: new_ServiceRequest_def)

theorem create_service_request_defaults_witness:
  "\<exists>doc. service_requests (snd (create_service_request env0 db0 request_a)) =
                 service_requests db0 @ [(ObjectId ''n1'', doc)]
           \<and> map_of doc ''status'' = Some (VStr ''pending'')
           \<and> map_of doc ''updatedAt'' = Some (VStr ''2024-05-01T10:00:00'')
           \<and> fst (create_service_request env0 db0 request_a) =
                   Inr (Created ''Service request created successfully!'' ''n1'')"
proof -
  have h: "write_raises env0 = None" by (simp add: env0_def)
  have v: "acknowledged env0" "inserted_id env0 = ObjectId ''n1''"
    "now_first env0 = ''2024-05-01T10:00:00''" "str_of_ObjectId env0 = binary"
    by (simp_all add: env0_def)
  from create_service_request_defaults [OF h, of db0 request_a]
  obtain doc where d:
    "service_requests (snd (create_service_request env0 db0 request_a)) =
                 service_requests db0 @ [(inserted_id env0, doc)]"
    "\<forall>uid un ue st rq c cr.
        request_a = new_ServiceRequest uid un ue st rq c None cr \<longrightarrow>
        map_of doc ''status'' = Some (VStr ''pending'')"
    "map_of doc ''updatedAt'' = Some (VStr (now_first env0))"
    "acknowledged env0 \<longrightarrow>
       fst (create_service_request env0 db0 request_a) =
         Inr (Created ''Service request created successfully!''
                (str_of_ObjectId env0 (inserted_id env0)))"
    by blast
  from d(2) have "map_of doc ''status'' = Some (VStr ''pending'')"
    unfolding request_a_def by blast
  with d(1,3,4) v show ?thesis by auto
qed

subsection \<open>handle_request_action\<close>

lemma matches_id_fun: "matches [(''_id'', VOid i)] = (\<lambda>d. fst d = i)"
  by (rule ext) (simp add: matches_id)

lemma update_first_split:
  "List.find P xs = Some d \<Longrightarrow>
     \<exists>pre post. xs = pre @ d # post \<and> (\<forall>x \<in> set pre. \<not> P x)
        \<and> update_first P f xs = pre @ f d # post"
proof (induction xs)
  case Nil
  then show ?case by simp
next
  case (Cons x xs)
  show ?case
  proof (cases "P x")
    case True
    with Cons.prems have "x = d" by simp
    with True have "x # xs = [] @ d # xs \<and> (\<forall>y \<in> set []. \<not> P y)
        \<and> update_first P f (x # xs) = [] @ f d # xs"
      by simp
    then show ?thesis by blast
  next
    case False
    with Cons.prems have "List.find P xs = Some d" by simp
    from Cons.IH [OF this] obtain pre post where
      "xs = pre @ d # post" "\<forall>y \<in> set pre. \<not> P y" "update_first P f xs = pre @ f d # post"
      by blast
    with False have "x # xs = (x # pre) @ d # post \<and> (\<forall>y \<in> set (x # pre). \<not> P y)
        \<and> update_first P f (x # xs) = (x # pre) @ f d # post"
      by simp
    then show ?thesis by blast
  qed
qed

lemma find_update_first:
  "List.find P xs = Some d \<Longrightarrow> P (f d) \<Longrightarrow> List.find P (update_first P f xs) = Some (f d)"
  by (induction xs) (auto split: if_splits)

lemma find_Some_holds: "List.find P xs = Some d \<Longrightarrow> P d"
  by (induction xs) (auto split: if_splits)

lemma fst_set_fields [simp]: "fst (set_fields u d) = fst d"
  by (simp add: set_fields_def)

lemma map_of_fold_update_other:
  "k \<notin> fst ` set u \<Longrightarrow> map_of (fold (\<lambda>(k, v). AList.update k v) u b) k = map_of b k"
  by (induction u arbitrary: b) (auto simp add: update_conv')

lemma set_fields_other:
  "k \<notin> fst ` set u \<Longrightarrow> map_of (snd (set_fields u d)) k = map_of (snd d) k"
  by (simp add: set_fields_def map_of_fold_update_other)

lemma set_fields_update_data:
  "map_of (snd (set_fields (update_data e st cg) d)) =
     (map_of (snd d))
       (''status'' \<mapsto> VStr st,
        ''caregiverId'' \<mapsto> VStr (caregiverId cg),
        ''caregiverName'' \<mapsto> VStr (caregiverName cg),
        ''caregiverEmail'' \<mapsto> VStr (caregiverEmail cg),
        ''processedAt'' \<mapsto> VStr (now_first e),
        ''updatedAt'' \<mapsto> VStr (now_second e))"
  by (simp add: set_fields_def update_data_def update_conv')

lemma update_one_returns:
  "write_raises e = None \<Longrightarrow>
     update_one e coll [(''_id'', VOid i)] u =
       (case List.find (\<lambda>d. fst d = i) coll of
          None \<Rightarrow> (Inr 0, coll)
        | Some _ \<Rightarrow> (Inr 1, update_first (\<lambda>d. fst d = i) (set_fields u) coll))"
  unfolding update_one_def matches_id_fun by simp

lemma handle_request_action_invalid_action:
  "action \<notin> {''approve'', ''reject''} \<Longrightarrow>
     handle_request_action e db rid action cg =
       (Inl (HTTPException 400 (''Invalid action. Use 'approve' or 'reject'' @ [CHR 0x27])), db)"
  by (simp add: handle_request_action_def handle_request_action_try_def)

lemma handle_request_action_invalid_id:
  "action \<in> {''approve'', ''reject''} \<Longrightarrow> ObjectId_of_str e rid = None \<Longrightarrow>
     handle_request_action e db rid action cg =
       (Inl (HTTPException 400 ''Invalid request ID format''), db)"
  by (auto simp add: handle_request_action_def handle_request_action_try_def)

lemma handle_request_action_not_found:
  assumes "action \<in> {''approve'', ''reject''}" and "ObjectId_of_str e rid = Some i"
    and "write_raises e = None" and "\<forall>d \<in> set (service_requests db). fst d \<noteq> i"
  shows "handle_request_action e db rid action cg =
       (Inl (HTTPException 404 ''Service request not found''), db)"
proof -
  from assms(4) have "List.find (\<lambda>d. fst d = i) (service_requests db) = None"
    by (simp add: find_None_iff)
  with assms(1-3) show ?thesis
    by (auto simp add: handle_request_action_def handle_request_action_try_def
        update_one_returns)
qed

lemma handle_request_action_found:
  assumes "action \<in> {''approve'', ''reject''}" and "ObjectId_of_str e rid = Some i"
    and "write_raises e = None" and "List.find (\<lambda>d. fst d = i) (service_requests db) = Some d"
  shows "handle_request_action e db rid action cg =
       (Inr (Message (''Request '' @ action_status action @ '' successfully!'')),
        db\<lparr>service_requests :=
             update_first (\<lambda>d. fst d = i)
               (set_fields (update_data e (action_status action) cg)) (service_requests db)\<rparr>)"
  using assms
  by (auto simp add: handle_request_action_def handle_request_action_try_def
      update_one_returns Let_def)

lemma handle_request_action_succeeds:
  assumes "fst (handle_request_action e db rid action cg) = Inr r"
  shows "\<exists>i d. action \<in> {''approve'', ''reject''} \<and> ObjectId_of_str e rid = Some i
           \<and> write_raises e = None
           \<and> List.find (\<lambda>d. fst d = i) (service_requests db) = Some d"
proof -
  from assms obtain db' where t: "handle_request_action_try e db rid action cg = (Inr r, db')"
    by (auto simp add: handle_request_action_def split: prod.splits sum.splits py_exception.splits)
  then have a: "action \<in> {''approve'', ''reject''}"
    by (auto simp add: handle_request_action_try_def split: if_splits)
  with t obtain i where i: "ObjectId_of_str e rid = Some i"
    by (auto simp add: handle_request_action_try_def split: option.splits)
  from t a i have w: "write_raises e = None"
    by (cases "write_raises e")
      (auto simp add: handle_request_action_try_def update_one_def Let_def)
  from t a i w obtain d where "List.find (\<lambda>d. fst d = i) (service_requests db) = Some d"
    by (cases "List.find (\<lambda>d. fst d = i) (service_requests db)")
      (auto simp add: handle_request_action_try_def update_one_returns Let_def)
  with a i w show ?thesis by blast
qed

text \<open>
  C6. An action other than \<^verbatim>\<open>approve\<close> and \<^verbatim>\<open>reject\<close> raises the 400
  \<^verbatim>\<open>HTTPException\<close> and leaves the database as it was. Otherwise an identifier the
  \<^verbatim>\<open>ObjectId\<close> constructor rejects raises the 400 "Invalid request ID format". Otherwise,
  when the update returns: with no document under that id, the 404 \<^verbatim>\<open>HTTPException\<close>; with
  one, the success message, and the document under that id has status \<^verbatim>\<open>approved\<close> for
  \<^verbatim>\<open>approve\<close> and \<^verbatim>\<open>rejected\<close> for \<^verbatim>\<open>reject\<close>.
\<close>

theorem handle_request_action_cases:
  "(action \<notin> {''approve'', ''reject''} \<longrightarrow>
      handle_request_action e db rid action cg =
        (Inl (HTTPException 400 (''Invalid action. Use 'approve' or 'reject'' @ [CHR 0x27])), db))
   \<and> (action \<in> {''approve'', ''reject''} \<longrightarrow> ObjectId_of_str e rid = None \<longrightarrow>
        fst (handle_request_action e db rid action cg) =
          Inl (HTTPException 400 ''Invalid request ID format''))
   \<and> (\<forall>i. action \<in> {''approve'', ''reject''} \<longrightarrow> ObjectId_of_str e rid = Some i \<longrightarrow>
        write_raises e = None \<longrightarrow>
        (\<forall>d \<in> set (service_requests db). fst d \<noteq> i) \<longrightarrow>
        fst (handle_request_action e db rid action cg) =
          Inl (HTTPException 404 ''Service request not found''))
   \<and> (\<forall>i d. action \<in> {''approve'', ''reject''} \<longrightarrow> ObjectId_of_str e rid = Some i \<longrightarrow>
        write_raises e = None \<longrightarrow>
        List.find (\<lambda>d. fst d = i) (service_requests db) = Some d \<longrightarrow>
        fst (handle_request_action e db rid action cg) =
          Inr (Message (''Request '' @ (if action = ''approve'' then ''approved'' else ''rejected'')
                 @ '' successfully!''))
        \<and> (\<exists>d'. List.find (\<lambda>d. fst d = i)
                   (service_requests (snd (handle_request_action e db rid action cg))) = Some d'
              \<and> map_of (snd d') ''status'' =
                  Some (VStr (if action = ''approve'' then ''approved'' else ''rejected''))))"
proof -
  have found: "fst (handle_request_action e db rid action cg) =
          Inr (Message (''Request '' @ (if action = ''approve'' then ''approved'' else ''rejected'')
                 @ '' successfully!''))
        \<and> (\<exists>d'. List.find (\<lambda>d. fst d = i)
                   (service_requests (snd (handle_request_action e db rid action cg))) = Some d'
              \<and> map_of (snd d') ''status'' =
                  Some (VStr (if action = ''approve'' then ''approved'' else ''rejected'')))"
    if a: "action \<in> {''approve'', ''reject''}" and i: "ObjectId_of_str e rid = Some i"
      and w: "write_raises e = None"
      and d: "List.find (\<lambda>d. fst d = i) (service_requests db) = Some d" for i d
  proof -
    let ?f = "set_fields (update_data e (action_status action) cg)"
    have "fst (?f d) = i" using find_Some_holds [OF d] by simp
    then have "List.find (\<lambda>d. fst d = i)
                 (update_first (\<lambda>d. fst d = i) ?f (service_requests db)) = Some (?f d)"
      using d by (simp add: find_update_first)
    moreover have "map_of (snd (?f d)) ''status'' = Some (VStr (action_status action))"
      by (simp add: set_fields_update_data)
    ultimately show ?thesis
      by (simp add: handle_request_action_found [OF a i w d] action_status_def)
  qed
  show ?thesis
    using found
    by (simp add: handle_request_action_invalid_action handle_request_action_invalid_id
        handle_request_action_not_found del: insert_iff)
qed

theorem handle_request_action_cases_witness:
  "handle_request_action env0 db0 rid_a ''cancel'' caregiver_a =
        (Inl (HTTPException 400 (''Invalid action. Use 'approve' or 'reject'' @ [CHR 0x27])), db0)
   \<and> fst (handle_request_action env0 db0 ''xyz'' ''approve'' caregiver_a) =
          Inl (HTTPException 400 ''Invalid request ID format'')
   \<and> fst (handle_request_action env0 db0 ''cccccccccccccccccccccccc'' ''approve'' caregiver_a) =
          Inl (HTTPException 404 ''Service request not found'')
   \<and> fst (handle_request_action env0 db0 rid_a ''reject'' caregiver_a) =
          Inr (Message ''Request rejected successfully!'')
   \<and> (\<exists>d'. List.find (\<lambda>d. fst d = ObjectId rid_a)
              (service_requests (snd (handle_request_action env0 db0 rid_a ''reject'' caregiver_a)))
                = Some d'
          \<and> map_of (snd d') ''status'' = Some (VStr ''rejected''))"
proof -
  have v: "''cancel'' \<notin> {''approve'', ''reject''}" "''approve'' \<in> {''approve'', ''reject''}"
    "''reject'' \<in> {''approve'', ''reject''}" "write_raises env0 = None"
    "ObjectId_of_str env0 ''xyz'' = None"
    "ObjectId_of_str env0 ''cccccccccccccccccccccccc'' = Some (ObjectId ''cccccccccccccccccccccccc'')"
    "ObjectId_of_str env0 rid_a = Some (ObjectId rid_a)"
    "\<forall>d \<in> set (service_requests db0). fst d \<noteq> ObjectId ''cccccccccccccccccccccccc''"
    "List.find (\<lambda>d. fst d = ObjectId rid_a) (service_requests db0) = Some (hd (service_requests db0))"
    by (simp_all add: env0_def db0_def rid_a_def)
  have a: "handle_request_action env0 db0 rid_a ''cancel'' caregiver_a =
        (Inl (HTTPException 400 (''Invalid action. Use 'approve' or 'reject'' @ [CHR 0x27])), db0)"
    using handle_request_action_cases [of "''cancel''" env0 db0 rid_a caregiver_a] v(1) by blast
  have b: "fst (handle_request_action env0 db0 ''xyz'' ''approve'' caregiver_a) =
          Inl (HTTPException 400 ''Invalid request ID format'')"
    using handle_request_action_cases [of "''approve''" env0 db0 "''xyz''" caregiver_a] v(2,5)
    by blast
  have c: "fst (handle_request_action env0 db0 ''cccccccccccccccccccccccc'' ''approve'' caregiver_a) =
          Inl (HTTPException 404 ''Service request not found'')"
    using handle_request_action_cases
      [of "''approve''" env0 db0 "''cccccccccccccccccccccccc''" caregiver_a] v(2,4,6,8)
    by blast
  have d: "fst (handle_request_action env0 db0 rid_a ''reject'' caregiver_a) =
          Inr (Message (''Request '' @ (if ''reject'' = ''approve'' then ''approved'' else ''rejected'')
                 @ '' successfully!''))
        \<and> (\<exists>d'. List.find (\<lambda>d. fst d = ObjectId rid_a)
                   (service_requests (snd (handle_request_action env0 db0 rid_a ''reject'' caregiver_a)))
                     = Some d'
              \<and> map_of (snd d') ''status'' =
                  Some (VStr (if ''reject'' = ''approve'' then ''approved'' else ''rejected'')))"
    using handle_request_action_cases [of "''reject''" env0 db0 rid_a caregiver_a] v(3,4,7,9)
    by blast
  from a b c d show ?thesis by simp
qed

text \<open>
  C7. On a document that exists, \<^verbatim>\<open>approve\<close> with one caregiver and then \<^verbatim>\<open>reject\<close> with
  another, under the same identifier, both return their success message, and the
  document then has status \<^verbatim>\<open>rejected\<close> and the second caregiver's id, name and email:
  the second update does not look at the status the first one left.
\<close>

theorem approve_then_reject_overwrites:
  assumes "List.find (\<lambda>d. fst d = i) (service_requests db) = Some d"
    and "ObjectId_of_str e1 rid = Some i" and "ObjectId_of_str e2 rid = Some i"
    and "write_raises e1 = None" and "write_raises e2 = None"
    and "handle_request_action e1 db rid ''approve'' cg_a = (r1, db1)"
    and "handle_request_action e2 db1 rid ''reject'' cg_b = (r2, db2)"
  shows "r1 = Inr (Message ''Request approved successfully!'')
       \<and> r2 = Inr (Message ''Request rejected successfully!'')
       \<and> (\<exists>d2. List.find (\<lambda>d. fst d = i) (service_requests db2) = Some d2
            \<and> map_of (snd d2) ''status'' = Some (VStr ''rejected'')
            \<and> map_of (snd d2) ''caregiverId'' = Some (VStr (caregiverId cg_b))
            \<and> map_of (snd d2) ''caregiverName'' = Some (VStr (caregiverName cg_b))
            \<and> map_of (snd d2) ''caregiverEmail'' = Some (VStr (caregiverEmail cg_b)))"
proof -
  let ?f1 = "set_fields (update_data e1 (action_status ''approve'') cg_a)"
  let ?f2 = "set_fields (update_data e2 (action_status ''reject'') cg_b)"
  have a: "''approve'' \<in> {''approve'', ''reject''}" and b: "''reject'' \<in> {''approve'', ''reject''}"
    by simp_all
  have i: "fst d = i" using find_Some_holds [OF assms(1)] by simp
  from assms(6) have r1: "r1 = Inr (Message ''Request approved successfully!'')"
    and db1: "service_requests db1 = update_first (\<lambda>d. fst d = i) ?f1 (service_requests db)"
    by (auto simp add: handle_request_action_found [OF a assms(2) assms(4) assms(1)]
        action_status_def)
  have d1: "List.find (\<lambda>d. fst d = i) (service_requests db1) = Some (?f1 d)"
    using assms(1) i by (simp add: db1 find_update_first)
  from assms(7) have r2: "r2 = Inr (Message ''Request rejected successfully!'')"
    and db2: "service_requests db2 = update_first (\<lambda>d. fst d = i) ?f2 (service_requests db1)"
    by (auto simp add: handle_request_action_found [OF b assms(3) assms(5) d1]
        action_status_def)
  have d2: "List.find (\<lambda>d. fst d = i) (service_requests db2) = Some (?f2 (?f1 d))"
    using d1 i by (simp add: db2 find_update_first)
  have "map_of (snd (?f2 (?f1 d))) ''status'' = Some (VStr ''rejected'')"
    "map_of (snd (?f2 (?f1 d))) ''caregiverId'' = Some (VStr (caregiverId cg_b))"
    "map_of (snd (?f2 (?f1 d))) ''caregiverName'' = Some (VStr (caregiverName cg_b))"
    "map_of (snd (?f2 (?f1 d))) ''caregiverEmail'' = Some (VStr (caregiverEmail cg_b))"
    by (simp_all add: set_fields_update_data action_status_def)
  with r1 r2 d2 show ?thesis by blast
qed

theorem approve_then_reject_overwrites_witness:
  "fst (handle_request_action env0 db0 rid_a ''approve'' caregiver_a) =
     Inr (Message ''Request approved successfully!'')
   \<and> fst (handle_request_action env1
            (snd (handle_request_action env0 db0 rid_a ''approve'' caregiver_a))
            rid_a ''reject'' caregiver_b) =
       Inr (Message ''Request rejected successfully!'')
   \<and> (\<exists>d2. List.find (\<lambda>d. fst d = ObjectId rid_a)
              (service_requests
                 (snd (handle_request_action env1
                         (snd (handle_request_action env0 db0 rid_a ''approve'' caregiver_a))
                         rid_a ''reject'' caregiver_b))) = Some d2
          \<and> map_of (snd d2) ''status'' = Some (VStr ''rejected'')
          \<and> map_of (snd d2) ''caregiverId'' = Some (VStr ''c2'')
          \<and> map_of (snd d2) ''caregiverName'' = Some (VStr ''Bob'')
          \<and> map_of (snd d2) ''caregiverEmail'' = Some (VStr ''bob@x.com''))"
proof -
  have h1: "List.find (\<lambda>d. fst d = ObjectId rid_a) (service_requests db0)
              = Some (hd (service_requests db0))"
    by (simp add: db0_def rid_a_def)
  have h2: "ObjectId_of_str env0 rid_a = Some (ObjectId rid_a)"
    and h3: "ObjectId_of_str env1 rid_a = Some (ObjectId rid_a)"
    and h4: "write_raises env0 = None" and h5: "write_raises env1 = None"
    by (simp_all add: env0_def env1_def rid_a_def)
  have v: "caregiverId caregiver_b = ''c2''" "caregiverName caregiver_b = ''Bob''"
    "caregiverEmail caregiver_b = ''bob@x.com''"
    by (simp_all add: caregiver_b_def)
  show ?thesis
    using approve_then_reject_overwrites
      [OF h1 h2 h3 h4 h5 surjective_pairing surjective_pairing, of caregiver_a caregiver_b]
    by (simp add: v)
qed

lemma update_data_keys:
  "fst ` set (update_data e st cg) =
     {''status'', ''caregiverId'', ''caregiverName'', ''caregiverEmail'', ''processedAt'',
      ''updatedAt''}"
  by (simp add: update_data_def)

text \<open>
  C10. A successful approve or reject leaves the users collection as it was and changes
  exactly one document of the service requests, in place: the document is the first one
  stored under the id the request identifier denotes, the documents before and after it
  are the same as before, it keeps its id, and every field other than \<^verbatim>\<open>status\<close>,
  \<^verbatim>\<open>caregiverId\<close>, \<^verbatim>\<open>caregiverName\<close>, \<^verbatim>\<open>caregiverEmail\<close>, \<^verbatim>\<open>processedAt\<close> and
  \<^verbatim>\<open>updatedAt\<close> reads as before.
\<close>

theorem handle_request_action_frame:
  assumes "fst (handle_request_action e db rid action cg) = Inr r"
  shows "users (snd (handle_request_action e db rid action cg)) = users db
       \<and> (\<exists>pre d post d'.
             service_requests db = pre @ d # post
           \<and> service_requests (snd (handle_request_action e db rid action cg)) = pre @ d' # post
           \<and> ObjectId_of_str e rid = Some (fst d)
           \<and> (\<forall>x \<in> set pre. fst x \<noteq> fst d)
           \<and> fst d' = fst d
           \<and> (\<forall>k. k \<notin> {''status'', ''caregiverId'', ''caregiverName'', ''caregiverEmail'',
                         ''processedAt'', ''updatedAt''} \<longrightarrow>
                  map_of (snd d') k = map_of (snd d) k))"
proof -
  let ?f = "set_fields (update_data e (action_status action) cg)"
  from handle_request_action_succeeds [OF assms] obtain i d where
    a: "action \<in> {''approve'', ''reject''}" and i: "ObjectId_of_str e rid = Some i"
    and w: "write_raises e = None"
    and d: "List.find (\<lambda>d. fst d = i) (service_requests db) = Some d"
    by blast
  note h = handle_request_action_found [OF a i w d, of cg]
  have t: "fst d = i" using find_Some_holds [OF d] by simp
  from update_first_split [OF d, of ?f] obtain pre post where
    s: "service_requests db = pre @ d # post"
    and n: "\<forall>x \<in> set pre. fst x \<noteq> i"
    and u: "update_first (\<lambda>d. fst d = i) ?f (service_requests db) = pre @ ?f d # post"
    by blast
  have "\<forall>k. k \<notin> {''status'', ''caregiverId'', ''caregiverName'', ''caregiverEmail'',
                 ''processedAt'', ''updatedAt''} \<longrightarrow>
           map_of (snd (?f d)) k = map_of (snd d) k"
    using set_fields_other [of _ "update_data e (action_status action) cg" d]
    by (simp only: update_data_keys) blast
  moreover have "fst (?f d) = fst d" by simp
  moreover have "service_requests (snd (handle_request_action e db rid action cg)) =
                   pre @ ?f d # post"
    by (simp add: h u)
  moreover have "users (snd (handle_request_action e db rid action cg)) = users db"
    by (simp add: h)
  moreover have "ObjectId_of_str e rid = Some (fst d)" using i t by simp
  moreover have "\<forall>x \<in> set pre. fst x \<noteq> fst d" using n t by simp
  ultimately show ?thesis using s by blast
qed

theorem handle_request_action_frame_witness:
  "fst (handle_request_action env0 db0 rid_b ''approve'' caregiver_a) =
     Inr (Message ''Request approved successfully!'')
   \<and> ObjectId_of_str env0 rid_b = Some (ObjectId ''bbbbbbbbbbbbbbbbbbbbbbbb'')
   \<and> users (snd (handle_request_action env0 db0 rid_b ''approve'' caregiver_a)) = users db0
   \<and> (\<exists>pre d post d'.
         service_requests db0 = pre @ d # post
       \<and> service_requests (snd (handle_request_action env0 db0 rid_b ''approve'' caregiver_a))
           = pre @ d' # post
       \<and> ObjectId_of_str env0 rid_b = Some (fst d)
       \<and> (\<forall>x \<in> set pre. fst x \<noteq> fst d)
       \<and> fst d' = fst d
       \<and> (\<forall>k. k \<notin> {''status'', ''caregiverId'', ''caregiverName'', ''caregiverEmail'',
                     ''processedAt'', ''updatedAt''} \<longrightarrow>
              map_of (snd d') k = map_of (snd d) k))"
proof -
  have a: "''approve'' \<in> {''approve'', ''reject''}" by simp
  have i: "ObjectId_of_str env0 rid_b = Some (ObjectId rid_b)"
    and w: "write_raises env0 = None"
    by (simp_all add: env0_def rid_b_def)
  have d: "List.find (\<lambda>d. fst d = ObjectId rid_b) (service_requests db0)
              = Some (service_requests db0 ! 1)"
    by (simp add: db0_def rid_b_def)
  have h: "fst (handle_request_action env0 db0 rid_b ''approve'' caregiver_a) =
             Inr (Message ''Request approved successfully!'')"
    by (simp add: handle_request_action_found [OF a i w d] action_status_def)
  have j: "ObjectId_of_str env0 rid_b = Some (ObjectId ''bbbbbbbbbbbbbbbbbbbbbbbb'')"
    using i by (simp add: rid_b_def)
  from h j handle_request_action_frame [OF h] show ?thesis by blast
qed

subsection \<open>get_pending_requests\<close>

lemma surface_id_id:
  "map_of (surface_id e d) ''id'' = Some (VStr (str_of_ObjectId e (fst d)))"
  by (simp add: surface_id_def delete_conv' update_conv')

lemma surface_id_no_store_id: "map_of (surface_id e d) ''_id'' = None"
  by (simp add: surface_id_def delete_conv')

lemma surface_id_other:
  "k \<noteq> ''id'' \<Longrightarrow> k \<noteq> ''_id'' \<Longrightarrow> map_of (surface_id e d) k = map_of (snd d) k"
  by (simp add: surface_id_def delete_conv' update_conv' as_dict_def)

lemma find_sort_descending_returns:
  "find_raises e = None \<Longrightarrow> k \<noteq> ''_id'' \<Longrightarrow>
     find_sort_descending e coll q k =
       Inr (rev (sort_key (\<lambda>d. bson_key (map_of (snd d) k)) (filter (matches q) coll)))"
  by (simp add: find_sort_descending_def as_dict_def)

lemma get_pending_requests_returns:
  assumes "find_raises e = None"
  shows "get_pending_requests e db =
           (Inr (Requests (map (surface_id e)
              (rev (sort_key (\<lambda>d. bson_key (map_of (snd d) ''createdAt''))
                 (filter (\<lambda>d. map_of (snd d) ''status'' = Some (VStr ''pending''))
                    (service_requests db)))))), db)"
  using assms
  by (simp add: get_pending_requests_def get_pending_requests_try_def
      find_sort_descending_returns matches_field_fun)

text \<open>
  C5. When the read returns, the body lists the images under \<open>surface_id\<close> of exactly the
  service-request documents whose status is \<^verbatim>\<open>"pending"\<close>, each as often as it is stored,
  and no other; the listed documents are in descending order of \<^verbatim>\<open>createdAt\<close>; each has
  the \<^verbatim>\<open>str\<close> of its id under \<^verbatim>\<open>id\<close>, no \<^verbatim>\<open>_id\<close> entry, and its other fields as stored.
  The database is left as it was.
\<close>

theorem get_pending_requests_listing:
  assumes "find_raises e = None"
  shows "\<exists>rs. get_pending_requests e db = (Inr (Requests (map (surface_id e) rs)), db)
           \<and> mset rs =
               filter_mset (\<lambda>d. map_of (snd d) ''status'' = Some (VStr ''pending''))
                 (mset (service_requests db))
           \<and> sorted (rev (map (\<lambda>r. bson_key (map_of r ''createdAt'')) (map (surface_id e) rs)))
           \<and> (\<forall>d \<in> set rs.
                 map_of (surface_id e d) ''id'' = Some (VStr (str_of_ObjectId e (fst d)))
               \<and> map_of (surface_id e d) ''_id'' = None
               \<and> (\<forall>k. k \<noteq> ''id'' \<longrightarrow> k \<noteq> ''_id'' \<longrightarrow>
                      map_of (surface_id e d) k = map_of (snd d) k))"
proof -
  let ?key = "\<lambda>d. bson_key (map_of (snd d) ''createdAt'')"
  let ?pending = "\<lambda>d. map_of (snd d) ''status'' = Some (VStr ''pending'')"
  let ?rs = "rev (sort_key ?key (filter ?pending (service_requests db)))"
  have r: "get_pending_requests e db = (Inr (Requests (map (surface_id e) ?rs)), db)"
    by (rule get_pending_requests_returns [OF assms])
  have m: "mset ?rs = filter_mset ?pending (mset (service_requests db))"
    by simp
  have "(\<lambda>r. bson_key (map_of r ''createdAt'')) \<circ> surface_id e = ?key"
    by (rule ext) (simp add: surface_id_other)
  then have "map (\<lambda>r. bson_key (map_of r ''createdAt'')) (map (surface_id e) ?rs)
               = rev (map ?key (sort_key ?key (filter ?pending (service_requests db))))"
    by (simp add: rev_map)
  then have s: "sorted (rev (map (\<lambda>r. bson_key (map_of r ''createdAt''))
                  (map (surface_id e) ?rs)))"
    by simp
  have f: "\<forall>d \<in> set ?rs.
                 map_of (surface_id e d) ''id'' = Some (VStr (str_of_ObjectId e (fst d)))
               \<and> map_of (surface_id e d) ''_id'' = None
               \<and> (\<forall>k. k \<noteq> ''id'' \<longrightarrow> k \<noteq> ''_id'' \<longrightarrow>
                      map_of (surface_id e d) k = map_of (snd d) k)"
    by (simp add: surface_id_id surface_id_no_store_id surface_id_other)
  from r m s f show ?thesis by blast
qed

theorem get_pending_requests_listing_witness:
  "get_pending_requests env0 db0 =
     (Inr (Requests
        [[(''userId'', VStr ''u1''), (''userName'', VStr ''A''),
          (''userEmail'', VStr ''a@x.com''), (''serviceType'', VStr ''cooking''),
          (''requirements'', VStr ''weekly''), (''cost'', VFloat 5),
          (''status'', VStr ''pending''), (''createdAt'', VStr ''2024-04-02''),
          (''updatedAt'', VStr ''2024-04-02T09:00:00''),
          (''id'', VStr ''bbbbbbbbbbbbbbbbbbbbbbbb'')],
         [(''userId'', VStr ''u1''), (''userName'', VStr ''A''),
          (''userEmail'', VStr ''a@x.com''), (''serviceType'', VStr ''nursing''),
          (''requirements'', VStr ''daily''), (''cost'', VFloat 10),
          (''status'', VStr ''pending''), (''createdAt'', VStr ''2024-04-01''),
          (''updatedAt'', VStr ''2024-04-01T09:00:00''),
          (''id'', VStr ''aaaaaaaaaaaaaaaaaaaaaaaa'')]]), db0)
   \<and> (\<exists>rs. get_pending_requests env0 db0 = (Inr (Requests (map (surface_id env0) rs)), db0)
           \<and> mset rs =
               filter_mset (\<lambda>d. map_of (snd d) ''status'' = Some (VStr ''pending''))
                 (mset (service_requests db0))
           \<and> sorted (rev (map (\<lambda>r. bson_key (map_of r ''createdAt''))
                 (map (surface_id env0) rs))))"
proof -
  have h: "find_raises env0 = None" by (simp add: env0_def)
  have x: "get_pending_requests env0 db0 =
     (Inr (Requests
        [[(''userId'', VStr ''u1''), (''userName'', VStr ''A''),
          (''userEmail'', VStr ''a@x.com''), (''serviceType'', VStr ''cooking''),
          (''requirements'', VStr ''weekly''), (''cost'', VFloat 5),
          (''status'', VStr ''pending''), (''createdAt'', VStr ''2024-04-02''),
          (''updatedAt'', VStr ''2024-04-02T09:00:00''),
          (''id'', VStr ''bbbbbbbbbbbbbbbbbbbbbbbb'')],
         [(''userId'', VStr ''u1''), (''userName'', VStr ''A''),
          (''userEmail'', VStr ''a@x.com''), (''serviceType'', VStr ''nursing''),
          (''requirements'', VStr ''daily''), (''cost'', VFloat 10),
          (''status'', VStr ''pending''), (''createdAt'', VStr ''2024-04-01''),
          (''updatedAt'', VStr ''2024-04-01T09:00:00''),
          (''id'', VStr ''aaaaaaaaaaaaaaaaaaaaaaaa'')]]), db0)"
    by (simp add: get_pending_requests_returns [OF h] db0_def)
      (simp add: surface_id_def as_dict_def env0_def)
  from x get_pending_requests_listing [OF h, of db0] show ?thesis by blast
qed

subsection \<open>The status of stored documents\<close>

lemma signup_service_requests:
  "service_requests (snd (signup e db user)) = service_requests db"
  by (auto simp add: signup_def signup_try_def insert_one_def Let_def
      split: prod.splits sum.splits py_exception.splits option.splits if_splits)

lemma get_pending_requests_db: "snd (get_pending_requests e db) = db"
  by (auto simp add: get_pending_requests_def get_pending_requests_try_def
      split: prod.splits sum.splits)

lemma create_service_request_service_requests:
  "service_requests (snd (create_service_request e db request)) = service_requests db
   \<or> (\<exists>doc. service_requests (snd (create_service_request e db request)) =
              service_requests db @ [(inserted_id e, doc)]
          \<and> map_of doc ''status'' = Some (VStr (status request)))"
proof (cases "write_raises e")
  case None
  then show ?thesis by (simp add: create_service_request_stores)
next
  case (Some m)
  then show ?thesis
    by (simp add: create_service_request_def create_service_request_try_def insert_one_raises
        Let_def)
qed

lemma handle_request_action_service_requests:
  "service_requests (snd (handle_request_action e db rid action cg)) = service_requests db
   \<or> (\<exists>i. service_requests (snd (handle_request_action e db rid action cg)) =
            update_first (\<lambda>d. fst d = i)
              (set_fields (update_data e (action_status action) cg)) (service_requests db))"
proof (cases "action \<in> {''approve'', ''reject''}")
  case False
  then show ?thesis by (simp add: handle_request_action_invalid_action)
next
  case a: True
  show ?thesis
  proof (cases "ObjectId_of_str e rid")
    case None
    with a show ?thesis by (simp add: handle_request_action_invalid_id)
  next
    case i: (Some i)
    show ?thesis
    proof (cases "write_raises e")
      case (Some m)
      with a i show ?thesis
        by (auto simp add: handle_request_action_def handle_request_action_try_def
            update_one_def Let_def)
    next
      case w: None
      show ?thesis
      proof (cases "List.find (\<lambda>d. fst d = i) (service_requests db)")
        case None
        then have "\<forall>d \<in> set (service_requests db). fst d \<noteq> i"
          by (simp add: find_None_iff)
        then show ?thesis by (simp add: handle_request_action_not_found [OF a i w])
      next
        case (Some d)
        have "service_requests (snd (handle_request_action e db rid action cg)) =
            update_first (\<lambda>d. fst d = i)
              (set_fields (update_data e (action_status action) cg)) (service_requests db)"
          by (simp add: handle_request_action_found [OF a i w Some])
        then show ?thesis by blast
      qed
    qed
  qed
qed

lemma list_all_update_first:
  "list_all Q xs \<Longrightarrow> (\<And>d. Q (f d)) \<Longrightarrow> list_all Q (update_first P f xs)"
  by (induction xs) auto

lemma status_after_update_data:
  "map_of (snd (set_fields (update_data e (action_status action) cg) d)) ''status'' \<in>
     {Some (VStr ''pending''), Some (VStr ''approved''), Some (VStr ''rejected'')}"
  by (simp add: set_fields_update_data action_status_def)

text \<open>
  C8, as the code has it. The request model takes any string as \<^verbatim>\<open>status\<close> and
  \<open>create_service_request\<close> stores it as given, so a stored status need not be one of the
  three (the counterexample). What holds: in a database where every status is one of
  \<^verbatim>\<open>pending\<close>, \<^verbatim>\<open>approved\<close>, \<^verbatim>\<open>rejected\<close>, every operation keeps it so, creation
  provided the request's status is one of the three, as it is when the caller omits it.
\<close>

theorem stored_status_valid_when_supplied_valid:
  assumes "statuses_valid db"
  shows "(status request \<in> {''pending'', ''approved'', ''rejected''} \<longrightarrow>
            statuses_valid (snd (create_service_request e db request)))
       \<and> (\<forall>uid un ue st rq c cr.
            statuses_valid
              (snd (create_service_request e db (new_ServiceRequest uid un ue st rq c None cr))))
       \<and> statuses_valid (snd (handle_request_action e db rid action cg))
       \<and> statuses_valid (snd (signup e db user))
       \<and> statuses_valid (snd (login e db l))
       \<and> statuses_valid (snd (get_pending_requests e db))"
proof -
  have c: "statuses_valid (snd (create_service_request e db r))"
    if "status r \<in> {''pending'', ''approved'', ''rejected''}" for r
    using create_service_request_service_requests [of e db r] assms that
    by (auto simp add: statuses_valid_def)
  have n: "status (new_ServiceRequest uid un ue st rq c None cr)
             \<in> {''pending'', ''approved'', ''rejected''}" for uid un ue st rq c cr
    by (simp add: new_ServiceRequest_def)
  have h: "statuses_valid (snd (handle_request_action e db rid action cg))"
  proof -
    let ?Q = "\<lambda>d. map_of (snd d) ''status'' \<in>
                 {Some (VStr ''pending''), Some (VStr ''approved''), Some (VStr ''rejected'')}"
    let ?f = "set_fields (update_data e (action_status action) cg)"
    have "list_all ?Q (update_first P ?f (service_requests db))" for P
    proof (rule list_all_update_first)
      show "list_all ?Q (service_requests db)"
        using assms by (simp add: statuses_valid_def)
      show "?Q (?f d)" for d by (rule status_after_update_data)
    qed
    then show ?thesis
      using handle_request_action_service_requests [of e db rid action cg] assms
      by (auto simp add: statuses_valid_def)
  qed
  have s: "statuses_valid (snd (signup e db user))"
    using assms by (simp add: statuses_valid_def signup_service_requests)
  have "statuses_valid (snd (login e db l))" "statuses_valid (snd (get_pending_requests e db))"
    using assms by (simp_all add: login_db get_pending_requests_db)
  with c n h s show ?thesis by blast
qed

theorem stored_status_valid_when_supplied_valid_witness:
  "statuses_valid db0
   \<and> statuses_valid (snd (create_service_request env0 db0 request_a))
   \<and> statuses_valid (snd (handle_request_action env0 db0 rid_a ''approve'' caregiver_a))
   \<and> statuses_valid (snd (signup env0 db0 user_new))"
proof -
  have h: "statuses_valid db0" by (simp add: statuses_valid_def db0_def)
  have r: "request_a = new_ServiceRequest ''u1'' ''A'' ''a@x.com'' ''nursing'' ''daily'' 10 None
             ''2024-05-01''"
    by (simp add: request_a_def)
  from stored_status_valid_when_supplied_valid
         [OF h, of request_a env0 rid_a "''approve''" caregiver_a user_new]
  show ?thesis using h unfolding r by blast
qed

theorem stored_status_unchecked_counterexample:
  "statuses_valid db0
   \<and> map_of (snd (last (service_requests (snd (create_service_request env0 db0 request_urgent)))))
       ''status'' = Some (VStr ''urgent'')
   \<and> \<not> statuses_valid (snd (create_service_request env0 db0 request_urgent))"
proof -
  have w: "write_raises env0 = None" by (simp add: env0_def)
  have s: "status request_urgent = ''urgent''"
    by (simp add: request_urgent_def new_ServiceRequest_def)
  have "statuses_valid db0" by (simp add: statuses_valid_def db0_def)
  then show ?thesis
    by (simp add: statuses_valid_def create_service_request_stores [OF w] s)
qed

subsection \<open>What a failing store call puts into the response\<close>

lemma signup_find_fails:
  "find_raises e = Some m \<Longrightarrow>
     signup e db user = (Inl (HTTPException 500 ''Signup failed due to server error''), db)"
  by (simp add: signup_def signup_try_def find_one_raises)

lemma signup_insert_fails:
  assumes "find_raises e = None"
    and "\<forall>d \<in> set (users db). map_of (snd d) ''email'' \<noteq> Some (VStr (UserSignup.email user))"
    and "write_raises e = Some m"
  shows "signup e db user = (Inl (HTTPException 500 ''Signup failed due to server error''), db)"
proof -
  have "List.find (\<lambda>d. map_of (snd d) ''email'' = Some (VStr (UserSignup.email user))) (users db)
          = None"
    using assms(2) by (simp add: find_None_iff)
  with assms(1,3) show ?thesis
    by (simp add: signup_def signup_try_def find_one_returns matches_field_fun
        insert_one_raises)
qed

lemma login_find_fails:
  "find_raises e = Some m \<Longrightarrow>
     login e db l = (Inl (HTTPException 500 ''Login failed due to server error''), db)"
  by (simp add: login_def login_try_def find_one_raises)

lemma get_pending_requests_find_fails:
  "find_raises e = Some m \<Longrightarrow>
     get_pending_requests e db =
       (Inl (HTTPException 500 ''Failed to fetch service requests''), db)"
  by (simp add: get_pending_requests_def get_pending_requests_try_def find_sort_descending_def)

lemma create_service_request_insert_fails:
  "write_raises e = Some m \<Longrightarrow>
     create_service_request e db request =
       (Inl (HTTPException 500 (''Failed to create service request: '' @ m)), db)"
  by (simp add: create_service_request_def create_service_request_try_def insert_one_raises
      Let_def)

lemma handle_request_action_update_fails:
  "write_raises e = Some m \<Longrightarrow> action \<in> {''approve'', ''reject''} \<Longrightarrow>
   ObjectId_of_str e rid = Some i \<Longrightarrow>
     handle_request_action e db rid action cg =
       (Inl (HTTPException 500 (''Failed to process service request: '' @ m)), db)"
  by (auto simp add: handle_request_action_def handle_request_action_try_def update_one_def
      Let_def)

text \<open>
  C9, as the code has it. When a store call raises, \<open>signup\<close>, \<open>login\<close> and
  \<open>get_pending_requests\<close> answer 500 with a fixed detail that does not depend on the
  failure. \<open>create_service_request\<close> and \<open>handle_request_action\<close> both answer 500 with a
  fixed prefix followed by \<^verbatim>\<open>str(e)\<close>: creation is not the only handler that shows the
  failure's own text (the counterexample).
\<close>

theorem data_access_failure_details:
  "(find_raises e = Some m \<longrightarrow>
      fst (signup e db user) = Inl (HTTPException 500 ''Signup failed due to server error'')
    \<and> fst (login e db l) = Inl (HTTPException 500 ''Login failed due to server error'')
    \<and> fst (get_pending_requests e db) =
        Inl (HTTPException 500 ''Failed to fetch service requests''))
   \<and> (find_raises e = None \<longrightarrow>
        (\<forall>d \<in> set (users db).
           map_of (snd d) ''email'' \<noteq> Some (VStr (UserSignup.email user))) \<longrightarrow>
        write_raises e = Some m \<longrightarrow>
        fst (signup e db user) = Inl (HTTPException 500 ''Signup failed due to server error''))
   \<and> (write_raises e = Some m \<longrightarrow>
        fst (create_service_request e db request) =
          Inl (HTTPException 500 (''Failed to create service request: '' @ m)))
   \<and> (write_raises e = Some m \<longrightarrow> action \<in> {''approve'', ''reject''} \<longrightarrow>
        ObjectId_of_str e rid \<noteq> None \<longrightarrow>
        fst (handle_request_action e db rid action cg) =
          Inl (HTTPException 500 (''Failed to process service request: '' @ m)))"
proof -
  have "fst (handle_request_action e db rid action cg) =
          Inl (HTTPException 500 (''Failed to process service request: '' @ m))"
    if w: "write_raises e = Some m" and a: "action \<in> {''approve'', ''reject''}"
      and i: "ObjectId_of_str e rid \<noteq> None"
  proof -
    from i obtain y where "ObjectId_of_str e rid = Some y" by blast
    from handle_request_action_update_fails [OF w a this] show ?thesis by simp
  qed
  then show ?thesis
    by (simp add: signup_find_fails login_find_fails get_pending_requests_find_fails
        signup_insert_fails create_service_request_insert_fails del: insert_iff)
qed

theorem data_access_failure_details_witness:
  "fst (signup env_down db0 user_new) =
     Inl (HTTPException 500 ''Signup failed due to server error'')
   \<and> fst (login env_down db0 login_a) =
       Inl (HTTPException 500 ''Login failed due to server error'')
   \<and> fst (get_pending_requests env_down db0) =
       Inl (HTTPException 500 ''Failed to fetch service requests'')
   \<and> fst (signup env_write_down db0 user_new) =
       Inl (HTTPException 500 ''Signup failed due to server error'')
   \<and> fst (create_service_request env_down db0 request_a) =
       Inl (HTTPException 500 ''Failed to create service request: connection refused'')
   \<and> fst (handle_request_action env_write_down db0 rid_a ''reject'' caregiver_a) =
       Inl (HTTPException 500 ''Failed to process service request: connection refused'')"
proof -
  have v: "find_raises env_down = Some ''connection refused''"
    "write_raises env_down = Some ''connection refused''"
    "find_raises env_write_down = None"
    "write_raises env_write_down = Some ''connection refused''"
    "ObjectId_of_str env_write_down rid_a \<noteq> None"
    "''reject'' \<in> {''approve'', ''reject''}"
    "\<forall>d \<in> set (users db0). map_of (snd d) ''email'' \<noteq> Some (VStr (UserSignup.email user_new))"
    by (simp_all add: env_down_def env_write_down_def env0_def rid_a_def db0_def user_new_def)
  from data_access_failure_details
         [of env_down "''connection refused''" db0 user_new login_a request_a]
       v(1,2)
  have a: "fst (signup env_down db0 user_new) =
     Inl (HTTPException 500 ''Signup failed due to server error'')
   \<and> fst (login env_down db0 login_a) =
       Inl (HTTPException 500 ''Login failed due to server error'')
   \<and> fst (get_pending_requests env_down db0) =
       Inl (HTTPException 500 ''Failed to fetch service requests'')
   \<and> fst (create_service_request env_down db0 request_a) =
       Inl (HTTPException 500 (''Failed to create service request: '' @ ''connection refused''))"
    by blast
  from data_access_failure_details
         [of env_write_down "''connection refused''" db0 user_new login_a request_a
            "''reject''" rid_a caregiver_a]
       v(3-7)
  have b: "fst (signup env_write_down db0 user_new) =
       Inl (HTTPException 500 ''Signup failed due to server error'')
   \<and> fst (handle_request_action env_write_down db0 rid_a ''reject'' caregiver_a) =
       Inl (HTTPException 500
              (''Failed to process service request: '' @ ''connection refused''))"
    by blast
  from a b show ?thesis by simp
qed

theorem request_action_failure_echoed_counterexample:
  "fst (handle_request_action env_write_down db0 rid_a ''approve'' caregiver_a) =
     Inl (HTTPException 500 ''Failed to process service request: connection refused'')
   \<and> fst (handle_request_action (env_write_down\<lparr>write_raises := Some ''timed out''\<rparr>) db0 rid_a
          ''approve'' caregiver_a) =
     Inl (HTTPException 500 ''Failed to process service request: timed out'')"
  by (simp add: handle_request_action_def handle_request_action_try_def update_one_def
      Let_def env_write_down_def env0_def rid_a_def)


subsection \<open>User documents\<close>

text \<open>Every handler keeps the user documents well formed: only \<open>signup\<close> writes to the
  collection, and what it inserts has the five string fields. So the documents \<open>login\<close>
  finds in a database built by these handlers are user documents.\<close>

lemma signup_users:
  "users (snd (signup e db user)) = users db
   \<or> users (snd (signup e db user)) =
       users db @
         [(inserted_id e,
           [(''name'', VStr (UserSignup.name user)),
            (''email'', VStr (UserSignup.email user)),
            (''password'', VStr (UserSignup.password user)),
            (''dob'', VStr (UserSignup.dob user)),
            (''role'', VStr (UserSignup.role user))])]"
  by (auto simp add: signup_def signup_try_def insert_one_def Let_def
      split: prod.splits sum.splits py_exception.splits option.splits if_splits)

lemma create_service_request_users: "users (snd (create_service_request e db request)) = users db"
  by (auto simp add: create_service_request_def create_service_request_try_def insert_one_def
      Let_def split: prod.splits sum.splits option.splits if_splits)

lemma handle_request_action_users:
  "users (snd (handle_request_action e db rid action cg)) = users db"
  by (auto simp add: handle_request_action_def handle_request_action_try_def update_one_def
      Let_def split: prod.splits sum.splits py_exception.splits option.splits if_splits)

lemma users_well_formed_kept:
  assumes "users_well_formed db"
  shows "users_well_formed (snd (signup e db user))"
    and "users_well_formed (snd (login e db l))"
    and "users_well_formed (snd (create_service_request e db request))"
    and "users_well_formed (snd (get_pending_requests e db))"
    and "users_well_formed (snd (handle_request_action e db rid action cg))"
proof -
  show "users_well_formed (snd (signup e db user))"
    using signup_users [of e db user] assms
    by (auto simp add: users_well_formed_def user_document_def)
  show "users_well_formed (snd (login e db l))"
    and "users_well_formed (snd (get_pending_requests e db))"
    using assms by (simp_all add: login_db get_pending_requests_db)
  show "users_well_formed (snd (create_service_request e db request))"
    and "users_well_formed (snd (handle_request_action e db rid action cg))"
    using assms
    by (simp_all add: users_well_formed_def create_service_request_users
        handle_request_action_users)
qed

lemma users_well_formed_found:
  "users_well_formed db \<Longrightarrow> List.find P (users db) = Some d \<Longrightarrow> user_document (snd d)"
  by (auto simp add: users_well_formed_def list_all_iff find_Some_iff)

end
